theory Spec2Isabelle
  imports Main "HOL-Library.Signed_Division"
begin

section \<open>Data model of \<open>src/index.js\<close>\<close>

text \<open>
  The script talks to a ledger node through ethers: it reads fee data and balances,
  estimates gas, submits transactions and waits for their receipts. Amounts are JavaScript
  \<open>BigInt\<close>s: unbounded integers, modelled as \<^typ>\<open>int\<close>; the BigInt division \<open>/\<close>
  truncates towards zero, which is \<open>sdiv\<close>. An object property that may be \<open>null\<close> or
  absent is an \<^typ>\<open>'a option\<close>. Console output is not modelled.
\<close>

type_synonym address = string

text \<open>The result of \<open>provider.getFeeData()\<close>: each field is a BigInt or \<open>null\<close>.\<close>

record feeData =
  fd_maxFeePerGas :: "int option"
  fd_maxPriorityFeePerGas :: "int option"
  fd_gasPrice :: "int option"

text \<open>
  A transaction request object. The \<open>overrides\<close> of \<open>sendWithDynamicGas\<close> and the
  \<open>txReq\<close> of \<open>transferAllNativeMinusGas\<close> are both plain objects of this shape; a
  property the code never assigns is \<open>None\<close>.
\<close>

record txRequest =
  rq_to :: "address option"
  rq_value :: "int option"
  rq_maxFeePerGas :: "int option"
  rq_maxPriorityFeePerGas :: "int option"
  rq_gasPrice :: "int option"
  rq_type :: "int option"

definition emptyRequest :: txRequest where
  "emptyRequest = \<lparr>rq_to = None, rq_value = None, rq_maxFeePerGas = None,
     rq_maxPriorityFeePerGas = None, rq_gasPrice = None, rq_type = None\<rparr>"

text \<open>The \<open>description\<close> argument of \<open>sendWithDynamicGas\<close>: the claim, or a transfer of a token symbol.\<close>

datatype description = ClaimDescription | TransferDescription string

text \<open>
  Exceptions. \<open>NodeError\<close> is whatever a call to the node or to a contract rejects with;
  \<open>TxFailed\<close>, \<open>GasPriceUnavailable\<close> and \<open>NativeTransferFailed\<close> are the
  \<open>throw new Error(...)\<close> of lines 61, 117 and 142; \<open>FormatUnitsError\<close> is the exception
  of \<open>ethers.formatUnits\<close>, called at line 84.
\<close>

datatype error =
    NodeError string
  | TxFailed description
  | GasPriceUnavailable
  | NativeTransferFailed
  | FormatUnitsError

record receipt =
  rc_transactionHash :: string
  rc_status :: "int option"

text \<open>A submitted transaction: its hash, and what \<open>tx.wait()\<close> will resolve or reject with.\<close>

record txResponse =
  tx_hash :: string
  tx_wait :: "error + receipt"

datatype runner = Provider | Signer

text \<open>The kinds of call to the node, and the observable events of a run, in order.\<close>

datatype call =
    CGetFeeData | CClaim | CBalanceOf | CDecimals | CSymbol
  | CTransfer | CGetBalance | CEstimateGas | CSendTransaction

datatype event =
    GetFeeData
  | ContractClaim txRequest
  | BalanceOf runner address address
  | Decimals address
  | Symbol address
  | Erc20Transfer address address int txRequest
  | GetBalance address
  | EstimateGas address address int
  | SendTransaction txRequest
  | TxWait string
  | Wait int

text \<open>
  The node as the script sees it: for each kind of call, the answer to its \<open>n\<close>-th
  invocation (a value, or the error it rejects with), the number of invocations made so
  far, and the trace of events.
\<close>

record world =
  getFeeData_rsp :: "nat \<Rightarrow> error + feeData"
  claim_rsp :: "nat \<Rightarrow> error + txResponse"
  balanceOf_rsp :: "nat \<Rightarrow> error + int"
  decimals_rsp :: "nat \<Rightarrow> error + int"
  symbol_rsp :: "nat \<Rightarrow> error + string"
  transfer_rsp :: "nat \<Rightarrow> error + txResponse"
  getBalance_rsp :: "nat \<Rightarrow> error + int"
  estimateGas_rsp :: "nat \<Rightarrow> error + int"
  sendTransaction_rsp :: "nat \<Rightarrow> error + txResponse"
  calls :: "call \<Rightarrow> nat"
  trace :: "event list"

section \<open>Asynchronous code as state passing with errors\<close>

type_synonym 'a io = "world \<Rightarrow> (error + 'a) \<times> world"

definition return_io :: "'a \<Rightarrow> 'a io" where
  "return_io x w = (Inr x, w)"

definition throw_io :: "error \<Rightarrow> 'a io" where
  "throw_io e w = (Inl e, w)"

text \<open>\<open>const x = await m; ...\<close>: a rejection of \<open>m\<close> skips the rest.\<close>

definition bind_io :: "'a io \<Rightarrow> ('a \<Rightarrow> 'b io) \<Rightarrow> 'b io" where
  "bind_io m f w = (case m w of (Inl e, w') \<Rightarrow> (Inl e, w') | (Inr x, w') \<Rightarrow> f x w')"

text \<open>
  \<open>await Promise.all([m1, m2])\<close>: both calls are issued, in this order, and the result
  rejects when one of them does (with the first rejection in argument order).
\<close>

definition all_io :: "'a io \<Rightarrow> 'b io \<Rightarrow> ('a \<times> 'b) io" where
  "all_io m1 m2 w =
     (case m1 w of (r1, w1) \<Rightarrow>
        (case m2 w1 of (r2, w2) \<Rightarrow>
           (case r1 of Inl e \<Rightarrow> (Inl e, w2)
            | Inr x \<Rightarrow> (case r2 of Inl e \<Rightarrow> (Inl e, w2) | Inr y \<Rightarrow> (Inr (x, y), w2)))))"

text \<open>The \<open>n\<close>-th invocation of a call \<open>c\<close> is answered from the world and recorded.\<close>

definition invoke :: "call \<Rightarrow> (world \<Rightarrow> nat \<Rightarrow> error + 'a) \<Rightarrow> event \<Rightarrow> 'a io" where
  "invoke c rsp ev w =
     (rsp w (calls w c), w\<lparr>calls := (calls w)(c := Suc (calls w c)), trace := trace w @ [ev]\<rparr>)"

definition getFeeData :: "feeData io" where
  "getFeeData = invoke CGetFeeData getFeeData_rsp GetFeeData"

definition contract_claim :: "txRequest \<Rightarrow> txResponse io" where
  "contract_claim ov = invoke CClaim claim_rsp (ContractClaim ov)"

definition erc20_balanceOf :: "runner \<Rightarrow> address \<Rightarrow> address \<Rightarrow> int io" where
  "erc20_balanceOf r tokenAddress owner = invoke CBalanceOf balanceOf_rsp (BalanceOf r tokenAddress owner)"

definition erc20_decimals :: "address \<Rightarrow> int io" where
  "erc20_decimals tokenAddress = invoke CDecimals decimals_rsp (Decimals tokenAddress)"

definition erc20_symbol :: "address \<Rightarrow> string io" where
  "erc20_symbol tokenAddress = invoke CSymbol symbol_rsp (Symbol tokenAddress)"

definition erc20_transfer :: "address \<Rightarrow> address \<Rightarrow> int \<Rightarrow> txRequest \<Rightarrow> txResponse io" where
  "erc20_transfer tokenAddress to amount ov =
     invoke CTransfer transfer_rsp (Erc20Transfer tokenAddress to amount ov)"

definition getBalance :: "address \<Rightarrow> int io" where
  "getBalance a = invoke CGetBalance getBalance_rsp (GetBalance a)"

definition estimateGas :: "address \<Rightarrow> address \<Rightarrow> int \<Rightarrow> int io" where
  "estimateGas to from v = invoke CEstimateGas estimateGas_rsp (EstimateGas to from v)"

definition sendTransaction :: "txRequest \<Rightarrow> txResponse io" where
  "sendTransaction txReq = invoke CSendTransaction sendTransaction_rsp (SendTransaction txReq)"

text \<open>\<open>tx.wait()\<close>: the outcome travels with the submitted transaction.\<close>

definition txWait :: "txResponse \<Rightarrow> receipt io" where
  "txWait tx w = (tx_wait tx, w\<lparr>trace := trace w @ [TxWait (tx_hash tx)]\<rparr>)"

text \<open>\<open>wait(ms)\<close>, lines 38-40: a timer, which never rejects.\<close>

definition wait :: "int \<Rightarrow> unit io" where
  "wait ms w = (Inr (), w\<lparr>trace := trace w @ [Wait ms]\<rparr>)"

section \<open>The functions of the script\<close>

text \<open>
  JavaScript truthiness of a BigInt-or-null property, as tested by
  \<open>feeData.maxFeePerGas && feeData.maxPriorityFeePerGas\<close> and \<open>feeData.gasPrice\<close>:
  \<open>null\<close> and \<open>0n\<close> are falsy.
\<close>

fun truthy :: "int option \<Rightarrow> bool" where
  "truthy None = False"
| "truthy (Some n) = (n \<noteq> 0)"

text \<open>Lines 46-55 of \<open>sendWithDynamicGas\<close>: the overrides built from the fee data.\<close>

definition dynamicGasOverrides :: "feeData \<Rightarrow> txRequest" where
  "dynamicGasOverrides feeData =
     (if truthy (fd_maxFeePerGas feeData) \<and> truthy (fd_maxPriorityFeePerGas feeData) then
        emptyRequest
          \<lparr>rq_maxFeePerGas := Some ((the (fd_maxFeePerGas feeData) * 120) sdiv 100),
           rq_maxPriorityFeePerGas := Some ((the (fd_maxPriorityFeePerGas feeData) * 120) sdiv 100)\<rparr>
      else if truthy (fd_gasPrice feeData) then
        emptyRequest\<lparr>rq_gasPrice := Some ((the (fd_gasPrice feeData) * 120) sdiv 100)\<rparr>
      else emptyRequest)"

text \<open>Lines 42-63.\<close>

definition sendWithDynamicGas :: "(txRequest \<Rightarrow> txResponse io) \<Rightarrow> description \<Rightarrow> receipt io" where
  "sendWithDynamicGas txFunc descr =
     bind_io getFeeData (\<lambda>feeData.
     bind_io (txFunc (dynamicGasOverrides feeData)) (\<lambda>tx.
     bind_io (txWait tx) (\<lambda>receipt.
       if rc_status receipt \<noteq> Some 1 then throw_io (TxFailed descr)
       else return_io receipt)))"

text \<open>Lines 65-68. The signer is the wallet, known by its address.\<close>

definition claimTokens :: "address \<Rightarrow> receipt io" where
  "claimTokens signer = sendWithDynamicGas (\<lambda>ov. contract_claim ov) ClaimDescription"

text \<open>Lines 70-73.\<close>

definition getTokenBalance :: "address \<Rightarrow> address \<Rightarrow> int io" where
  "getTokenBalance owner tokenAddress = erc20_balanceOf Provider tokenAddress owner"

text \<open>
  \<open>ethers.formatUnits(bal, decimals)\<close>, a function of the ethers library that line 84
  evaluates for its log line, on the values of the token's interface (lines 10-11: the
  balance is a \<open>uint256\<close>, the decimals a \<open>uint8\<close>). The fixed-point format of ethers allows
  at most 80 decimals: above that the call throws. The string it returns is only printed.
\<close>

definition formatUnits :: "int \<Rightarrow> int \<Rightarrow> unit io" where
  "formatUnits v decimals =
     (if 80 < decimals then throw_io FormatUnitsError else return_io ())"

text \<open>
  Lines 75-86. \<open>null\<close> is \<open>None\<close>; \<open>signer.getAddress()\<close> of a wallet is its address. The
  argument of the \<open>console.log\<close> of line 84 is evaluated before the transfer of line 85,
  so an exception of \<open>formatUnits\<close> leaves the function before anything is submitted.
\<close>

definition transferAllToken :: "address \<Rightarrow> address \<Rightarrow> address \<Rightarrow> receipt option io" where
  "transferAllToken signer to tokenAddress =
     bind_io (all_io (erc20_decimals tokenAddress) (erc20_symbol tokenAddress)) (\<lambda>(decimals, symbol).
     bind_io (erc20_balanceOf Signer tokenAddress signer) (\<lambda>bal.
       if bal = 0 then return_io None
       else
         bind_io (formatUnits bal decimals) (\<lambda>_.
         bind_io (sendWithDynamicGas (\<lambda>ov. erc20_transfer tokenAddress to bal ov)
                    (TransferDescription symbol))
           (\<lambda>receipt. return_io (Some receipt)))))"

text \<open>Lines 101-106: a rejected gas estimation is replaced by 21000.\<close>

definition estimateGasOrDefault :: "address \<Rightarrow> address \<Rightarrow> int io" where
  "estimateGasOrDefault to from w =
     (case estimateGas to from 1 w of
        (Inl e, w') \<Rightarrow> (Inr 21000, w')
      | (Inr gasLimit, w') \<Rightarrow> (Inr gasLimit, w'))"

text \<open>Lines 108-118: the fee reserved for the native transfer.\<close>

definition nativeFee :: "feeData \<Rightarrow> int \<Rightarrow> error + int" where
  "nativeFee feeData gasLimit =
     (if truthy (fd_maxFeePerGas feeData) \<and> truthy (fd_maxPriorityFeePerGas feeData) then
        Inr (gasLimit * ((the (fd_maxFeePerGas feeData) * 120) sdiv 100))
      else if truthy (fd_gasPrice feeData) then
        Inr (gasLimit * ((the (fd_gasPrice feeData) * 120) sdiv 100))
      else Inl GasPriceUnavailable)"

text \<open>Lines 125-136: the request of the native transfer.\<close>

definition nativeTxReq :: "address \<Rightarrow> int \<Rightarrow> feeData \<Rightarrow> txRequest" where
  "nativeTxReq to v feeData =
     (let txReq = emptyRequest\<lparr>rq_to := Some to, rq_value := Some v\<rparr> in
      if truthy (fd_maxFeePerGas feeData) \<and> truthy (fd_maxPriorityFeePerGas feeData) then
        txReq\<lparr>rq_maxFeePerGas := Some ((the (fd_maxFeePerGas feeData) * 120) sdiv 100),
              rq_maxPriorityFeePerGas := Some ((the (fd_maxPriorityFeePerGas feeData) * 120) sdiv 100),
              rq_type := Some 2\<rparr>
      else if truthy (fd_gasPrice feeData) then
        txReq\<lparr>rq_gasPrice := Some ((the (fd_gasPrice feeData) * 120) sdiv 100)\<rparr>
      else txReq)"

text \<open>Lines 88-144.\<close>

definition transferAllNativeMinusGas :: "address \<Rightarrow> address \<Rightarrow> receipt option io" where
  "transferAllNativeMinusGas signer to =
     bind_io (all_io (getBalance signer) getFeeData) (\<lambda>(balance, feeData).
       if balance = 0 then return_io None
       else
         bind_io (estimateGasOrDefault to signer) (\<lambda>gasLimit.
           case nativeFee feeData gasLimit of
             Inl e \<Rightarrow> throw_io e
           | Inr fee \<Rightarrow>
               if balance \<le> fee then return_io None
               else
                 bind_io (sendTransaction (nativeTxReq to (balance - fee) feeData)) (\<lambda>tx.
                 bind_io (txWait tx) (\<lambda>receipt.
                   if rc_status receipt \<noteq> Some 1 then throw_io NativeTransferFailed
                   else return_io (Some receipt)))))"

subsection \<open>The two loops of \<open>main\<close>\<close>

definition RECEIVER :: address where
  "RECEIVER = ''0x94f9ae4c07d32d0ad9f21f8f20f4551523e77169''"

definition TOKEN_CONTRACT :: address where
  "TOKEN_CONTRACT = ''0x1789e0043623282D5DCc7F213d703C6D8BAfBB04''"

text \<open>
  The sweep pass of lines 176-178 and 192-194: when the balance read is positive, the token
  transfer and then the native transfer. The result tells whether the pass ran to its end.
\<close>

definition sweepIfFunded :: "address \<Rightarrow> bool io" where
  "sweepIfFunded wallet =
     bind_io (getTokenBalance wallet TOKEN_CONTRACT) (\<lambda>tokenBal.
       if tokenBal \<noteq> 0 \<and> tokenBal > 0 then
         bind_io (transferAllToken wallet RECEIVER TOKEN_CONTRACT) (\<lambda>_.
         bind_io (transferAllNativeMinusGas wallet RECEIVER) (\<lambda>_.
           return_io True))
       else return_io False)"

text \<open>
  One pass of the first loop, lines 163-183. The result is \<open>True\<close> at the \<open>break\<close>. A failed
  claim waits 5000 ms; then the body of the second \<open>try\<close> runs, and its \<open>catch\<close> drops
  the error.
\<close>

definition claimIteration :: "address \<Rightarrow> world \<Rightarrow> bool \<times> world" where
  "claimIteration wallet w =
     (case claimTokens wallet w of
        (Inr r, w1) \<Rightarrow> (True, w1)
      | (Inl e, w1) \<Rightarrow>
          (case wait 5000 w1 of (_, w2) \<Rightarrow>
             (case sweepIfFunded wallet w2 of (_, w3) \<Rightarrow> (False, w3))))"

text \<open>
  One pass of the second loop, lines 189-200: \<open>True\<close> at the \<open>break\<close>, which is reached
  only when the sweep pass ran to its end; the \<open>catch\<close> drops any error.
\<close>

definition monitorIteration :: "address \<Rightarrow> world \<Rightarrow> bool \<times> world" where
  "monitorIteration wallet w =
     (case sweepIfFunded wallet w of
        (Inr True, w1) \<Rightarrow> (True, w1)
      | (Inr False, w1) \<Rightarrow> (False, w1)
      | (Inl e, w1) \<Rightarrow> (False, w1))"

text \<open>
  The \<open>while (true)\<close> loops, with a bound on the number of passes: the result is
  \<open>(True, w)\<close> when the loop left through its \<open>break\<close> in world \<open>w\<close>, and
  \<open>(False, w)\<close> when the bound was reached with the loop still running in world \<open>w\<close>.
\<close>

fun claimLoop :: "nat \<Rightarrow> address \<Rightarrow> world \<Rightarrow> bool \<times> world" where
  "claimLoop 0 wallet w = (False, w)"
| "claimLoop (Suc n) wallet w =
     (case claimIteration wallet w of
        (True, w') \<Rightarrow> (True, w')
      | (False, w') \<Rightarrow> claimLoop n wallet w')"

fun monitorLoop :: "nat \<Rightarrow> address \<Rightarrow> world \<Rightarrow> bool \<times> world" where
  "monitorLoop 0 wallet w = (False, w)"
| "monitorLoop (Suc n) wallet w =
     (case monitorIteration wallet w of
        (True, w') \<Rightarrow> (True, w')
      | (False, w') \<Rightarrow> monitorLoop n wallet w')"

text \<open>
  Lines 161-201 of \<open>main\<close>: the second loop starts when the first has left through its
  \<open>break\<close>. (Lines 147-159 check the environment and the constant addresses and build
  the provider and the wallet.)
\<close>

definition main :: "nat \<Rightarrow> address \<Rightarrow> world \<Rightarrow> bool \<times> world" where
  "main n wallet w =
     (case claimLoop n wallet w of
        (True, w') \<Rightarrow> monitorLoop n wallet w'
      | (False, w') \<Rightarrow> (False, w'))"

section \<open>Observations on traces\<close>

text \<open>
  The events that submit a transaction: the claim call, a token transfer, a native transfer.
\<close>

fun isSubmission :: "event \<Rightarrow> bool" where
  "isSubmission (ContractClaim _) = True"
| "isSubmission (Erc20Transfer _ _ _ _) = True"
| "isSubmission (SendTransaction _) = True"
| "isSubmission _ = False"

text \<open>
  The timer events, the claim calls, and the balance reads of \<open>getTokenBalance\<close> (the polls of
  the loops, made through the provider; \<open>transferAllToken\<close> reads through the signer).
\<close>

fun isWait :: "event \<Rightarrow> bool" where
  "isWait (Wait _) = True"
| "isWait _ = False"

fun isClaimCall :: "event \<Rightarrow> bool" where
  "isClaimCall (ContractClaim _) = True"
| "isClaimCall _ = False"

fun isPoll :: "event \<Rightarrow> bool" where
  "isPoll (BalanceOf Provider _ _) = True"
| "isPoll _ = False"

text \<open>
  The events a sweep pass can add after its poll: everything but a claim call, a poll and
  a timer.
\<close>

fun sweepEvent :: "event \<Rightarrow> bool" where
  "sweepEvent (ContractClaim _) = False"
| "sweepEvent (BalanceOf Provider _ _) = False"
| "sweepEvent (Wait _) = False"
| "sweepEvent _ = True"

text \<open>
  The price per unit of a fee offer, in the words of the specification: the max-fee field
  of a priority-style offer if present, else the flat price field. The offer is the set
  of fee fields that \<open>dynamicGasOverrides\<close> derives from the fee data.
\<close>

definition pricePerUnit :: "txRequest \<Rightarrow> int option" where
  "pricePerUnit offer =
     (case rq_maxFeePerGas offer of Some m \<Rightarrow> Some m | None \<Rightarrow> rq_gasPrice offer)"

section \<open>Example worlds\<close>

text \<open>
  A node on which every call succeeds: EIP-1559 fee data, a token balance of 500, a native
  balance of \<open>10^18\<close>, a gas estimate of 21000 and transactions that settle with status 1.
  The other worlds change one answer of it.
\<close>

definition holder :: address where
  "holder = ''0x52908400098527886E0F7030069857D2E4169EE7''"

definition okReceipt :: receipt where
  "okReceipt = \<lparr>rc_transactionHash = ''0xa1'', rc_status = Some 1\<rparr>"

definition revertedReceipt :: receipt where
  "revertedReceipt = \<lparr>rc_transactionHash = ''0xb2'', rc_status = Some 0\<rparr>"

definition okTx :: txResponse where
  "okTx = \<lparr>tx_hash = ''0xa1'', tx_wait = Inr okReceipt\<rparr>"

definition revertedTx :: txResponse where
  "revertedTx = \<lparr>tx_hash = ''0xb2'', tx_wait = Inr revertedReceipt\<rparr>"

definition exampleFees :: feeData where
  "exampleFees = \<lparr>fd_maxFeePerGas = Some 2000000000, fd_maxPriorityFeePerGas = Some 1000000000,
     fd_gasPrice = Some 1500000000\<rparr>"

definition legacyFees :: feeData where
  "legacyFees = \<lparr>fd_maxFeePerGas = None, fd_maxPriorityFeePerGas = None,
     fd_gasPrice = Some 1500000000\<rparr>"

definition zeroTipFees :: feeData where
  "zeroTipFees = \<lparr>fd_maxFeePerGas = Some 2000000000, fd_maxPriorityFeePerGas = Some 0,
     fd_gasPrice = Some 1500000000\<rparr>"

definition noFees :: feeData where
  "noFees = \<lparr>fd_maxFeePerGas = None, fd_maxPriorityFeePerGas = None, fd_gasPrice = None\<rparr>"

definition exampleWorld :: world where
  "exampleWorld =
     \<lparr>getFeeData_rsp = (\<lambda>n. Inr exampleFees),
      claim_rsp = (\<lambda>n. Inr okTx),
      balanceOf_rsp = (\<lambda>n. Inr 500),
      decimals_rsp = (\<lambda>n. Inr 18),
      symbol_rsp = (\<lambda>n. Inr ''TKN''),
      transfer_rsp = (\<lambda>n. Inr okTx),
      getBalance_rsp = (\<lambda>n. Inr 1000000000000000000),
      estimateGas_rsp = (\<lambda>n. Inr 21000),
      sendTransaction_rsp = (\<lambda>n. Inr okTx),
      calls = (\<lambda>c. 0),
      trace = []\<rparr>"

text \<open>
  The claim is rejected twice and then succeeds.
\<close>

definition claimStubWorld :: world where
  "claimStubWorld =
     exampleWorld\<lparr>claim_rsp := (\<lambda>n. if n < 2 then Inl (NodeError ''claim not open'') else Inr okTx)\<rparr>"

text \<open>
  The token balance reads 0 three times and 42 from then on.
\<close>

definition balanceStubWorld :: world where
  "balanceStubWorld = exampleWorld\<lparr>balanceOf_rsp := (\<lambda>n. if n < 3 then Inr 0 else Inr 42)\<rparr>"

section \<open>Unfolding and arithmetic\<close>

lemmas io_defs = return_io_def throw_io_def bind_io_def all_io_def invoke_def
  getFeeData_def contract_claim_def erc20_balanceOf_def erc20_decimals_def erc20_symbol_def
  erc20_transfer_def getBalance_def estimateGas_def sendTransaction_def txWait_def wait_def

lemmas model_defs = io_defs sendWithDynamicGas_def claimTokens_def getTokenBalance_def
  transferAllToken_def estimateGasOrDefault_def nativeFee_def nativeTxReq_def
  transferAllNativeMinusGas_def sweepIfFunded_def claimIteration_def monitorIteration_def
  dynamicGasOverrides_def emptyRequest_def pricePerUnit_def formatUnits_def

lemmas example_defs = holder_def okReceipt_def revertedReceipt_def okTx_def revertedTx_def
  exampleFees_def legacyFees_def zeroTipFees_def noFees_def exampleWorld_def claimStubWorld_def
  balanceStubWorld_def

text \<open>
  On unsigned amounts the truncating division of BigInt is the floor division.
\<close>

lemma sdiv_nonneg: "0 \<le> (a::int) \<Longrightarrow> (a * 120) sdiv 100 = a * 120 div 100"
  by (simp add: signed_divide_int_def sgn_if)

section \<open>Fee escalation\<close>

text \<open>
  Claim C2, as amended. When the fee data carry a max fee \<open>a\<close> and a max priority fee \<open>b\<close>
  that are both non-zero (positive, the amounts being unsigned), the overrides of \<open>sendWithDynamicGas\<close> and the request of the native
  transfer carry \<open>a * 120 div 100\<close> and \<open>b * 120 div 100\<close> in the same two fields and no flat
  price (the native request is also marked type 2). When that pair is not usable and the
  flat price \<open>p\<close> is non-zero, both carry \<open>p * 120 div 100\<close> as flat price and neither of the
  priority fields.
\<close>

theorem fee_offer_escalation:
  "(fd_maxFeePerGas fd = Some a \<and> fd_maxPriorityFeePerGas fd = Some b \<and> 0 < a \<and> 0 < b \<longrightarrow>
      dynamicGasOverrides fd =
        emptyRequest\<lparr>rq_maxFeePerGas := Some (a * 120 div 100),
                      rq_maxPriorityFeePerGas := Some (b * 120 div 100)\<rparr> \<and>
      nativeTxReq to v fd =
        emptyRequest\<lparr>rq_to := Some to, rq_value := Some v,
                      rq_maxFeePerGas := Some (a * 120 div 100),
                      rq_maxPriorityFeePerGas := Some (b * 120 div 100),
                      rq_type := Some 2\<rparr>) \<and>
   (\<not> (truthy (fd_maxFeePerGas fd) \<and> truthy (fd_maxPriorityFeePerGas fd)) \<and>
    fd_gasPrice fd = Some p \<and> 0 < p \<longrightarrow>
      dynamicGasOverrides fd = emptyRequest\<lparr>rq_gasPrice := Some (p * 120 div 100)\<rparr> \<and>
      nativeTxReq to v fd =
        emptyRequest\<lparr>rq_to := Some to, rq_value := Some v,
                      rq_gasPrice := Some (p * 120 div 100)\<rparr>)"
  by (simp add: dynamicGasOverrides_def nativeTxReq_def sdiv_nonneg Let_def)

text \<open>
  The theorem at EIP-1559 fee data and at flat-price fee data.
\<close>

theorem fee_offer_escalation_witness:
  "dynamicGasOverrides exampleFees =
     emptyRequest\<lparr>rq_maxFeePerGas := Some 2400000000, rq_maxPriorityFeePerGas := Some 1200000000\<rparr> \<and>
   rq_type (nativeTxReq RECEIVER 7 exampleFees) = Some 2 \<and>
   dynamicGasOverrides legacyFees = emptyRequest\<lparr>rq_gasPrice := Some 1800000000\<rparr> \<and>
   rq_type (nativeTxReq RECEIVER 7 legacyFees) = None"
  using fee_offer_escalation [of exampleFees 2000000000 1000000000 RECEIVER 7 1500000000]
    fee_offer_escalation [of legacyFees 0 0 RECEIVER 7 1500000000]
  by (simp add: exampleFees_def legacyFees_def emptyRequest_def)

text \<open>
  A populated field that holds \<open>0n\<close> is falsy: with a max fee of 2000000000 and a max priority
  fee of 0 the offer is the flat-price one, and the max-fee field is not the escalated value.
\<close>

theorem fee_offer_zero_tip_counterexample:
  "fd_maxFeePerGas zeroTipFees = Some 2000000000 \<and> fd_maxPriorityFeePerGas zeroTipFees = Some 0 \<and>
   rq_maxFeePerGas (dynamicGasOverrides zeroTipFees) \<noteq> Some (2000000000 * 120 div 100) \<and>
   dynamicGasOverrides zeroTipFees = emptyRequest\<lparr>rq_gasPrice := Some 1800000000\<rparr>"
  by (simp add: zeroTipFees_def dynamicGasOverrides_def emptyRequest_def sdiv_nonneg)

text \<open>
  Claim C3, as amended. When the fee data have no usable field (each is null or zero),
  the native sweep of a non-zero balance fails with the gas-price error and submits nothing;
  \<open>sendWithDynamicGas\<close> raises no error for such fee data: it builds empty overrides and calls
  the transaction function with them.
\<close>

theorem fee_unavailable:
  assumes nofee: "\<not> (truthy (fd_maxFeePerGas fd) \<and> truthy (fd_maxPriorityFeePerGas fd))"
      "\<not> truthy (fd_gasPrice fd)"
    and fee: "getFeeData_rsp w (calls w CGetFeeData) = Inr fd"
  shows "(\<forall>b. getBalance_rsp w (calls w CGetBalance) = Inr b \<and> b \<noteq> 0 \<longrightarrow>
            fst (transferAllNativeMinusGas signer to w) = Inl GasPriceUnavailable \<and>
            filter isSubmission (trace (snd (transferAllNativeMinusGas signer to w))) =
              filter isSubmission (trace w)) \<and>
         dynamicGasOverrides fd = emptyRequest \<and>
         sendWithDynamicGas txFunc descr w =
           bind_io (txFunc emptyRequest) (\<lambda>tx.
           bind_io (txWait tx) (\<lambda>receipt.
             if rc_status receipt \<noteq> Some 1 then throw_io (TxFailed descr)
             else return_io receipt)) (snd (getFeeData w))"
  using nofee fee
  by (auto simp: transferAllNativeMinusGas_def estimateGasOrDefault_def io_defs nativeFee_def
      dynamicGasOverrides_def sendWithDynamicGas_def
      split: sum.splits prod.splits if_splits)

text \<open>
  The theorem on a node whose fee data are all null.
\<close>

theorem fee_unavailable_witness:
  "fst (transferAllNativeMinusGas holder RECEIVER (exampleWorld\<lparr>getFeeData_rsp := (\<lambda>n. Inr noFees)\<rparr>))
     = Inl GasPriceUnavailable \<and>
   dynamicGasOverrides noFees = emptyRequest"
  using fee_unavailable [of noFees "exampleWorld\<lparr>getFeeData_rsp := (\<lambda>n. Inr noFees)\<rparr>"
      holder RECEIVER contract_claim ClaimDescription]
  by (simp add: exampleWorld_def noFees_def)

text \<open>
  On that node the claim is still submitted, with empty overrides, and settles: no
  fee-unavailable error is raised on this path.
\<close>

theorem fee_unavailable_counterexample:
  "fst (claimTokens holder (exampleWorld\<lparr>getFeeData_rsp := (\<lambda>n. Inr noFees)\<rparr>)) = Inr okReceipt \<and>
   trace (snd (claimTokens holder (exampleWorld\<lparr>getFeeData_rsp := (\<lambda>n. Inr noFees)\<rparr>))) =
     [GetFeeData, ContractClaim emptyRequest, TxWait ''0xa1'']"
  by (simp add: model_defs example_defs)

text \<open>
  Claim C6, as amended. The fee fields of the native transfer request are those of the
  escalated offer, and the request is marked type 2 exactly when the offer is priority-style;
  the overrides of \<open>sendWithDynamicGas\<close> carry the escalated fee fields but never a type. Both
  are what is submitted: the claim call receives the overrides, and the native transfer
  sends the request.
\<close>

theorem fee_fields_on_request:
  "rq_maxFeePerGas (nativeTxReq to v fd) = rq_maxFeePerGas (dynamicGasOverrides fd) \<and>
   rq_maxPriorityFeePerGas (nativeTxReq to v fd) = rq_maxPriorityFeePerGas (dynamicGasOverrides fd) \<and>
   rq_gasPrice (nativeTxReq to v fd) = rq_gasPrice (dynamicGasOverrides fd) \<and>
   rq_type (nativeTxReq to v fd) =
     (if rq_maxFeePerGas (dynamicGasOverrides fd) \<noteq> None then Some 2 else None) \<and>
   rq_type (dynamicGasOverrides fd) = None \<and>
   (getFeeData_rsp w (calls w CGetFeeData) = Inr fd \<longrightarrow>
      filter isSubmission (trace (snd (claimTokens signer w))) =
        filter isSubmission (trace w) @ [ContractClaim (dynamicGasOverrides fd)]) \<and>
   (getFeeData_rsp w (calls w CGetFeeData) = Inr fd \<and>
    getBalance_rsp w (calls w CGetBalance) = Inr b \<and>
    nativeFee fd (case estimateGas_rsp w (calls w CEstimateGas) of Inl e \<Rightarrow> 21000 | Inr g \<Rightarrow> g) = Inr f
    \<and> b \<noteq> 0 \<and> f < b \<longrightarrow>
      filter isSubmission (trace (snd (transferAllNativeMinusGas signer to w))) =
        filter isSubmission (trace w) @ [SendTransaction (nativeTxReq to (b - f) fd)])"
proof -
  have fields: "rq_maxFeePerGas (nativeTxReq to v fd) = rq_maxFeePerGas (dynamicGasOverrides fd) \<and>
   rq_maxPriorityFeePerGas (nativeTxReq to v fd) = rq_maxPriorityFeePerGas (dynamicGasOverrides fd) \<and>
   rq_gasPrice (nativeTxReq to v fd) = rq_gasPrice (dynamicGasOverrides fd) \<and>
   rq_type (nativeTxReq to v fd) =
     (if rq_maxFeePerGas (dynamicGasOverrides fd) \<noteq> None then Some 2 else None) \<and>
   rq_type (dynamicGasOverrides fd) = None"
    by (simp add: nativeTxReq_def dynamicGasOverrides_def emptyRequest_def Let_def)
  have claim: "filter isSubmission (trace (snd (claimTokens signer w))) =
        filter isSubmission (trace w) @ [ContractClaim (dynamicGasOverrides fd)]"
    if "getFeeData_rsp w (calls w CGetFeeData) = Inr fd"
    using that
    by (auto simp: claimTokens_def sendWithDynamicGas_def io_defs split: sum.splits prod.splits)
  have native: "filter isSubmission (trace (snd (transferAllNativeMinusGas signer to w))) =
        filter isSubmission (trace w) @ [SendTransaction (nativeTxReq to (b - f) fd)]"
    if "getFeeData_rsp w (calls w CGetFeeData) = Inr fd"
      "getBalance_rsp w (calls w CGetBalance) = Inr b"
      "nativeFee fd (case estimateGas_rsp w (calls w CEstimateGas) of Inl e \<Rightarrow> 21000 | Inr g \<Rightarrow> g) = Inr f"
      "b \<noteq> 0" "f < b"
    using that
    by (auto simp: transferAllNativeMinusGas_def estimateGasOrDefault_def io_defs
        split: sum.splits prod.splits)
  from fields claim native show ?thesis by blast
qed

text \<open>
  The theorem at EIP-1559 and at flat-price fee data, and on the example node.
\<close>

theorem fee_fields_on_request_witness:
  "rq_type (nativeTxReq RECEIVER 7 exampleFees) = Some 2 \<and>
   rq_type (nativeTxReq RECEIVER 7 legacyFees) = None \<and>
   filter isSubmission (trace (snd (claimTokens holder exampleWorld))) =
     [ContractClaim (dynamicGasOverrides exampleFees)] \<and>
   filter isSubmission (trace (snd (transferAllNativeMinusGas holder RECEIVER exampleWorld))) =
     [SendTransaction (nativeTxReq RECEIVER (1000000000000000000 - 21000 * 2400000000) exampleFees)]"
  using fee_fields_on_request [where to = RECEIVER and v = 7 and fd = exampleFees
      and w = exampleWorld and signer = holder and b = 1000000000000000000
      and f = "21000 * 2400000000"]
    fee_fields_on_request [where to = RECEIVER and v = 7 and fd = legacyFees]
  by (simp add: exampleWorld_def exampleFees_def legacyFees_def nativeFee_def sdiv_nonneg
      dynamicGasOverrides_def emptyRequest_def)

text \<open>
  With EIP-1559 fee data the claim is submitted with both priority fields set and no
  transaction type.
\<close>

theorem overrides_type_counterexample:
  "rq_maxFeePerGas (dynamicGasOverrides exampleFees) = Some 2400000000 \<and>
   rq_maxPriorityFeePerGas (dynamicGasOverrides exampleFees) = Some 1200000000 \<and>
   rq_type (dynamicGasOverrides exampleFees) = None \<and>
   trace (snd (claimTokens holder exampleWorld)) =
     [GetFeeData, ContractClaim (dynamicGasOverrides exampleFees), TxWait ''0xa1'']"
  by (simp add: model_defs example_defs sdiv_nonneg)

section \<open>Sweep amounts\<close>

text \<open>
  Claim C1. A native sweep reads the balance \<open>b\<close>, the fee data and the gas estimate \<open>g\<close>
  (21000 when the estimation is rejected); let \<open>p\<close> be the price per unit of the escalated
  offer (amounts are unsigned). The reserved
  fee is \<open>g * p\<close>. When \<open>b \<le> g * p\<close> the sweep returns null and submits nothing; otherwise it
  submits one transfer, to the recipient, of exactly \<open>b - g * p\<close>.
\<close>

theorem native_sweep_amount:
  assumes bal: "getBalance_rsp w (calls w CGetBalance) = Inr b"
    and fee: "getFeeData_rsp w (calls w CGetFeeData) = Inr fd"
    and est: "(case estimateGas_rsp w (calls w CEstimateGas) of Inl e \<Rightarrow> 21000 | Inr x \<Rightarrow> x) = g"
    and offer: "pricePerUnit (dynamicGasOverrides fd) = Some p"
    and unsigned: "0 \<le> g" "0 \<le> p"
  shows "nativeFee fd g = Inr (g * p) \<and>
         (b \<le> g * p \<longrightarrow>
            fst (transferAllNativeMinusGas signer to w) = Inr None \<and>
            filter isSubmission (trace (snd (transferAllNativeMinusGas signer to w))) =
              filter isSubmission (trace w)) \<and>
         (g * p < b \<longrightarrow>
            filter isSubmission (trace (snd (transferAllNativeMinusGas signer to w))) =
              filter isSubmission (trace w) @ [SendTransaction (nativeTxReq to (b - g * p) fd)] \<and>
            rq_to (nativeTxReq to (b - g * p) fd) = Some to \<and>
            rq_value (nativeTxReq to (b - g * p) fd) = Some (b - g * p))"
proof -
  have fee_eq: "nativeFee fd g = Inr (g * p)"
    using offer
    by (auto simp: nativeFee_def dynamicGasOverrides_def pricePerUnit_def emptyRequest_def
        split: if_splits)
  have nn: "0 \<le> g * p" using unsigned by simp
  show ?thesis
    using bal fee est fee_eq nn
    apply (intro conjI impI)
      apply assumption
     apply (auto simp: transferAllNativeMinusGas_def estimateGasOrDefault_def io_defs
        split: sum.splits prod.splits if_splits)
     apply (simp_all add: nativeTxReq_def Let_def emptyRequest_def)
    done
qed

text \<open>
  The theorem on the example node (balance \<open>10^18\<close>, reserve \<open>21000 * 2400000000\<close>) and with
  a balance of 100, which is below the reserve.
\<close>

theorem native_sweep_amount_witness:
  "nativeFee exampleFees 21000 = Inr (21000 * 2400000000) \<and>
   filter isSubmission (trace (snd (transferAllNativeMinusGas holder RECEIVER exampleWorld))) =
     [SendTransaction (nativeTxReq RECEIVER (1000000000000000000 - 21000 * 2400000000) exampleFees)] \<and>
   fst (transferAllNativeMinusGas holder RECEIVER
          (exampleWorld\<lparr>getBalance_rsp := (\<lambda>n. Inr 100)\<rparr>)) = Inr None"
  using native_sweep_amount [of exampleWorld 1000000000000000000 exampleFees 21000 2400000000
      holder RECEIVER]
    native_sweep_amount [of "exampleWorld\<lparr>getBalance_rsp := (\<lambda>n. Inr 100)\<rparr>" 100 exampleFees
      21000 2400000000 holder RECEIVER]
  by (simp add: exampleWorld_def exampleFees_def pricePerUnit_def dynamicGasOverrides_def
      emptyRequest_def sdiv_nonneg)

text \<open>
  Claim C4, as amended. A token sweep whose two metadata reads succeed, with \<open>d\<close> decimals,
  and whose balance read is \<open>b\<close>: when \<open>b = 0\<close> it returns null after the three reads, with
  no submission; when \<open>b\<close> is positive, \<open>d\<close> is at most 80 (both within the types of the
  token's interface) and the fee data arrive, it submits one token transfer of exactly
  \<open>b\<close>: nothing is reserved.
\<close>

theorem token_sweep_amount:
  assumes dec: "decimals_rsp w (calls w CDecimals) = Inr d"
    and sym: "symbol_rsp w (calls w CSymbol) = Inr s"
    and bal: "balanceOf_rsp w (calls w CBalanceOf) = Inr b"
  shows "(b = 0 \<longrightarrow>
            fst (transferAllToken signer to tokenAddress w) = Inr None \<and>
            trace (snd (transferAllToken signer to tokenAddress w)) =
              trace w @ [Decimals tokenAddress, Symbol tokenAddress,
                         BalanceOf Signer tokenAddress signer]) \<and>
         (0 < b \<and> b < 2 ^ 256 \<and> 0 \<le> d \<and> d \<le> 80 \<longrightarrow>
            (\<forall>fd. getFeeData_rsp w (calls w CGetFeeData) = Inr fd \<longrightarrow>
               filter isSubmission (trace (snd (transferAllToken signer to tokenAddress w))) =
                 filter isSubmission (trace w) @
                   [Erc20Transfer tokenAddress to b (dynamicGasOverrides fd)]))"
  using dec sym bal
  by (auto simp: transferAllToken_def sendWithDynamicGas_def formatUnits_def io_defs
      split: sum.splits prod.splits if_splits)

text \<open>
  The theorem with a balance of 500 and with a balance of 0, for a token of 18 decimals.
\<close>

theorem token_sweep_amount_witness:
  "filter isSubmission (trace (snd (transferAllToken holder RECEIVER TOKEN_CONTRACT exampleWorld))) =
     [Erc20Transfer TOKEN_CONTRACT RECEIVER 500 (dynamicGasOverrides exampleFees)] \<and>
   fst (transferAllToken holder RECEIVER TOKEN_CONTRACT
          (exampleWorld\<lparr>balanceOf_rsp := (\<lambda>n. Inr 0)\<rparr>)) = Inr None"
  using token_sweep_amount [of exampleWorld 18 "''TKN''" 500 holder RECEIVER TOKEN_CONTRACT]
    token_sweep_amount [of "exampleWorld\<lparr>balanceOf_rsp := (\<lambda>n. Inr 0)\<rparr>" 18 "''TKN''" 0
      holder RECEIVER TOKEN_CONTRACT]
  by (simp add: exampleWorld_def)

text \<open>
  Without those conditions the sweep of a balance does not give the stated result. When
  the read of the symbol is rejected, a sweep of a zero balance fails with that error
  instead of returning null. For a token of 81 decimals, a sweep of a balance of 500 fails
  in \<open>formatUnits\<close> and submits no transfer.
\<close>

theorem token_sweep_counterexample:
  "fst (transferAllToken holder RECEIVER TOKEN_CONTRACT
          (exampleWorld\<lparr>symbol_rsp := (\<lambda>n. Inl (NodeError ''call reverted'')),
                         balanceOf_rsp := (\<lambda>n. Inr 0)\<rparr>)) = Inl (NodeError ''call reverted'') \<and>
   fst (transferAllToken holder RECEIVER TOKEN_CONTRACT
          (exampleWorld\<lparr>decimals_rsp := (\<lambda>n. Inr 81)\<rparr>)) = Inl FormatUnitsError \<and>
   filter isSubmission (trace (snd (transferAllToken holder RECEIVER TOKEN_CONTRACT
          (exampleWorld\<lparr>decimals_rsp := (\<lambda>n. Inr 81)\<rparr>)))) = []"
  by (simp add: model_defs example_defs)

text \<open>
  Claim C5. When the gas estimation is rejected, the gas limit is 21000, and the native
  sweep returns and records exactly what it does on a node that answers the estimation
  with 21000: it goes on instead of failing.
\<close>

theorem estimate_failure_fallback:
  assumes est: "estimateGas_rsp w (calls w CEstimateGas) = Inl e"
  shows "fst (estimateGasOrDefault to signer w) = Inr 21000 \<and>
         fst (transferAllNativeMinusGas signer to w) =
           fst (transferAllNativeMinusGas signer to
                 (w\<lparr>estimateGas_rsp := (estimateGas_rsp w)(calls w CEstimateGas := Inr 21000)\<rparr>)) \<and>
         trace (snd (transferAllNativeMinusGas signer to w)) =
           trace (snd (transferAllNativeMinusGas signer to
                 (w\<lparr>estimateGas_rsp := (estimateGas_rsp w)(calls w CEstimateGas := Inr 21000)\<rparr>)))"
  using est
  by (auto simp: transferAllNativeMinusGas_def estimateGasOrDefault_def io_defs
      split: sum.splits prod.splits if_splits)

text \<open>
  The theorem on a node that cannot simulate the transfer: the sweep still submits.
\<close>

theorem estimate_failure_fallback_witness:
  "fst (estimateGasOrDefault RECEIVER holder
          (exampleWorld\<lparr>estimateGas_rsp := (\<lambda>n. Inl (NodeError ''cannot simulate''))\<rparr>)) = Inr 21000 \<and>
   filter isSubmission (trace (snd (transferAllNativeMinusGas holder RECEIVER
          (exampleWorld\<lparr>estimateGas_rsp := (\<lambda>n. Inl (NodeError ''cannot simulate''))\<rparr>)))) =
     [SendTransaction (nativeTxReq RECEIVER (1000000000000000000 - 21000 * 2400000000) exampleFees)]"
  using estimate_failure_fallback
    [of "exampleWorld\<lparr>estimateGas_rsp := (\<lambda>n. Inl (NodeError ''cannot simulate''))\<rparr>"
      "NodeError ''cannot simulate''" RECEIVER holder]
  by (simp add: model_defs example_defs sdiv_nonneg)

text \<open>
  Claim C10. With a balance of exactly 0 the native sweep returns null right after reading
  the balance and the fee data, whatever the fee data hold: no gas is estimated, no fee is
  computed, and the gas-price error cannot be raised.
\<close>

theorem zero_balance_skips_fee:
  assumes bal: "getBalance_rsp w (calls w CGetBalance) = Inr 0"
    and fee: "getFeeData_rsp w (calls w CGetFeeData) = Inr fd"
  shows "fst (transferAllNativeMinusGas signer to w) = Inr None \<and>
         trace (snd (transferAllNativeMinusGas signer to w)) =
           trace w @ [GetBalance signer, GetFeeData]"
  using bal fee
  by (simp add: transferAllNativeMinusGas_def io_defs)

text \<open>
  The theorem with a zero balance and fee data that are all null.
\<close>

theorem zero_balance_skips_fee_witness:
  "fst (transferAllNativeMinusGas holder RECEIVER
          (exampleWorld\<lparr>getBalance_rsp := (\<lambda>n. Inr 0), getFeeData_rsp := (\<lambda>n. Inr noFees)\<rparr>))
     = Inr None"
  using zero_balance_skips_fee
    [of "exampleWorld\<lparr>getBalance_rsp := (\<lambda>n. Inr 0), getFeeData_rsp := (\<lambda>n. Inr noFees)\<rparr>"
      noFees holder RECEIVER]
  by (simp add: exampleWorld_def)

section \<open>Settlement\<close>

text \<open>
  Claim C9. Once a transaction is submitted, on both paths, the caller gets the receipt
  exactly when \<open>tx.wait()\<close> resolves with status 1; a receipt with any other status becomes
  the failure error of that path, and a rejected wait is passed on.
\<close>

theorem settlement_status:
  "(getFeeData_rsp w (calls w CGetFeeData) = Inr fd \<and>
    fst (txFunc (dynamicGasOverrides fd) (snd (getFeeData w))) = Inr tx \<longrightarrow>
      fst (sendWithDynamicGas txFunc descr w) =
        (case tx_wait tx of
           Inl e \<Rightarrow> Inl e
         | Inr r \<Rightarrow> if rc_status r = Some 1 then Inr r else Inl (TxFailed descr))) \<and>
   (getBalance_rsp w (calls w CGetBalance) = Inr b \<and>
    getFeeData_rsp w (calls w CGetFeeData) = Inr fd \<and>
    nativeFee fd (case estimateGas_rsp w (calls w CEstimateGas) of Inl e \<Rightarrow> 21000 | Inr g \<Rightarrow> g) = Inr f
    \<and> b \<noteq> 0 \<and> f < b \<and>
    sendTransaction_rsp w (calls w CSendTransaction) = Inr tx \<longrightarrow>
      fst (transferAllNativeMinusGas signer to w) =
        (case tx_wait tx of
           Inl e \<Rightarrow> Inl e
         | Inr r \<Rightarrow> if rc_status r = Some 1 then Inr (Some r) else Inl NativeTransferFailed))"
  by (auto simp: transferAllNativeMinusGas_def estimateGasOrDefault_def sendWithDynamicGas_def io_defs
      split: sum.splits prod.splits if_splits)

text \<open>
  The theorem for transactions that settle with status 1 and with status 0, on both paths.
\<close>

theorem settlement_status_witness:
  "fst (sendWithDynamicGas contract_claim ClaimDescription exampleWorld) = Inr okReceipt \<and>
   fst (sendWithDynamicGas contract_claim ClaimDescription
          (exampleWorld\<lparr>claim_rsp := (\<lambda>n. Inr revertedTx)\<rparr>)) = Inl (TxFailed ClaimDescription) \<and>
   fst (transferAllNativeMinusGas holder RECEIVER exampleWorld) = Inr (Some okReceipt) \<and>
   fst (transferAllNativeMinusGas holder RECEIVER
          (exampleWorld\<lparr>sendTransaction_rsp := (\<lambda>n. Inr revertedTx)\<rparr>)) = Inl NativeTransferFailed"
  using settlement_status [where w = exampleWorld and fd = exampleFees and txFunc = contract_claim
      and tx = okTx and descr = ClaimDescription and b = 1000000000000000000
      and f = "21000 * 2400000000" and signer = holder and to = RECEIVER]
    settlement_status [where w = "exampleWorld\<lparr>claim_rsp := (\<lambda>n. Inr revertedTx)\<rparr>"
      and fd = exampleFees and txFunc = contract_claim and tx = revertedTx
      and descr = ClaimDescription]
    settlement_status [where w = "exampleWorld\<lparr>sendTransaction_rsp := (\<lambda>n. Inr revertedTx)\<rparr>"
      and fd = exampleFees and tx = revertedTx and b = 1000000000000000000
      and f = "21000 * 2400000000" and signer = holder and to = RECEIVER]
  by (simp add: exampleWorld_def exampleFees_def okTx_def okReceipt_def revertedTx_def
      revertedReceipt_def nativeFee_def sdiv_nonneg contract_claim_def getFeeData_def invoke_def)

section \<open>What a function adds to the trace\<close>

text \<open>
  The events of one kind in the trace are unchanged by a computation that records no event
  of that kind. The lemmas follow the structure of the functions.
\<close>

lemma filter_trace_invoke:
  "\<not> P ev \<Longrightarrow> filter P (trace (snd (invoke c rsp ev w))) = filter P (trace w)"
  by (simp add: invoke_def)

lemma filter_trace_txWait:
  "\<not> P (TxWait (tx_hash tx)) \<Longrightarrow> filter P (trace (snd (txWait tx w))) = filter P (trace w)"
  by (simp add: txWait_def)

lemma filter_trace_return: "filter P (trace (snd (return_io x w))) = filter P (trace w)"
  by (simp add: return_io_def)

lemma filter_trace_throw: "filter P (trace (snd (throw_io e w))) = filter P (trace w)"
  by (simp add: throw_io_def)

lemma filter_trace_formatUnits:
  "filter P (trace (snd (formatUnits v decimals w))) = filter P (trace w)"
  by (simp add: formatUnits_def throw_io_def return_io_def)

lemma filter_trace_bind:
  assumes m: "\<And>w. filter P (trace (snd (m w))) = filter P (trace w)"
    and f: "\<And>x w. filter P (trace (snd (f x w))) = filter P (trace w)"
  shows "filter P (trace (snd (bind_io m f w))) = filter P (trace w)"
proof (cases "m w")
  case (Pair r w')
  then have w': "filter P (trace w') = filter P (trace w)"
    using m [of w] by simp
  show ?thesis
  proof (cases r)
    case (Inl e)
    with Pair w' show ?thesis by (simp add: bind_io_def)
  next
    case (Inr x)
    with Pair w' f [of x w'] show ?thesis by (simp add: bind_io_def)
  qed
qed

lemma filter_trace_all:
  assumes m1: "\<And>w. filter P (trace (snd (m1 w))) = filter P (trace w)"
    and m2: "\<And>w. filter P (trace (snd (m2 w))) = filter P (trace w)"
  shows "filter P (trace (snd (all_io m1 m2 w))) = filter P (trace w)"
proof -
  obtain r1 w1 where a: "m1 w = (r1, w1)" by (cases "m1 w")
  obtain r2 w2 where b: "m2 w1 = (r2, w2)" by (cases "m2 w1")
  have "filter P (trace w2) = filter P (trace w)"
    using m1 [of w] m2 [of w1] a b by simp
  then show ?thesis
    using a b by (simp add: all_io_def split: sum.split)
qed

lemma filter_trace_sendWithDynamicGas:
  assumes P: "\<And>ev. sweepEvent ev \<Longrightarrow> \<not> P ev"
    and f: "\<And>ov w. filter P (trace (snd (txFunc ov w))) = filter P (trace w)"
  shows "filter P (trace (snd (sendWithDynamicGas txFunc descr w))) = filter P (trace w)"
  unfolding sendWithDynamicGas_def getFeeData_def
  by (intro filter_trace_bind filter_trace_invoke filter_trace_txWait f P)
     (simp_all add: filter_trace_throw filter_trace_return)

lemma filter_trace_transferAllToken:
  assumes P: "\<And>ev. sweepEvent ev \<Longrightarrow> \<not> P ev"
  shows "filter P (trace (snd (transferAllToken signer to tokenAddress w))) = filter P (trace w)"
proof -
  have send: "filter P (trace (snd (bind_io (formatUnits bal d) (\<lambda>_.
        bind_io
          (sendWithDynamicGas (\<lambda>ov. erc20_transfer tokenAddress to bal ov) (TransferDescription s))
          (\<lambda>receipt. return_io (Some receipt))) w'))) = filter P (trace w')" for bal d s w'
    unfolding erc20_transfer_def
    by (intro filter_trace_bind filter_trace_formatUnits filter_trace_sendWithDynamicGas
        filter_trace_invoke filter_trace_return P) simp_all
  have body: "filter P (trace (snd (bind_io (erc20_balanceOf Signer tokenAddress signer) (\<lambda>bal.
       if bal = 0 then return_io None
       else
         bind_io (formatUnits bal d) (\<lambda>_.
         bind_io (sendWithDynamicGas (\<lambda>ov. erc20_transfer tokenAddress to bal ov)
                    (TransferDescription s))
           (\<lambda>receipt. return_io (Some receipt)))) w'))) = filter P (trace w')" for d s w'
    unfolding erc20_balanceOf_def
    by (intro filter_trace_bind filter_trace_invoke P)
       (simp_all add: filter_trace_return send)
  show ?thesis
    unfolding transferAllToken_def erc20_decimals_def erc20_symbol_def
    by (intro filter_trace_bind filter_trace_all filter_trace_invoke P)
       (simp_all add: split_def body)
qed

lemma filter_trace_estimateGasOrDefault:
  assumes P: "\<And>ev. sweepEvent ev \<Longrightarrow> \<not> P ev"
  shows "filter P (trace (snd (estimateGasOrDefault to from w))) = filter P (trace w)"
  using P [of "EstimateGas to from 1"]
  by (simp add: estimateGasOrDefault_def estimateGas_def invoke_def split: sum.split)

lemma filter_trace_transferAllNativeMinusGas:
  assumes P: "\<And>ev. sweepEvent ev \<Longrightarrow> \<not> P ev"
  shows "filter P (trace (snd (transferAllNativeMinusGas signer to w))) = filter P (trace w)"
proof -
  have send: "filter P (trace (snd (bind_io (sendTransaction txReq) (\<lambda>tx.
         bind_io (txWait tx) (\<lambda>receipt.
           if rc_status receipt \<noteq> Some 1 then throw_io NativeTransferFailed
           else return_io (Some receipt))) w'))) = filter P (trace w')" for txReq w'
    unfolding sendTransaction_def
    by (intro filter_trace_bind filter_trace_invoke filter_trace_txWait P)
       (simp_all add: filter_trace_throw filter_trace_return)
  have rest: "filter P (trace (snd (bind_io (estimateGasOrDefault to signer) (\<lambda>gasLimit.
           case nativeFee feeData gasLimit of
             Inl e \<Rightarrow> throw_io e
           | Inr fee \<Rightarrow>
               if balance \<le> fee then return_io None
               else
                 bind_io (sendTransaction (nativeTxReq to (balance - fee) feeData)) (\<lambda>tx.
                 bind_io (txWait tx) (\<lambda>receipt.
                   if rc_status receipt \<noteq> Some 1 then throw_io NativeTransferFailed
                   else return_io (Some receipt)))) w'))) = filter P (trace w')"
    for balance feeData w'
    by (intro filter_trace_bind filter_trace_estimateGasOrDefault P)
       (simp_all add: filter_trace_throw filter_trace_return send split: sum.split)
  show ?thesis
    unfolding transferAllNativeMinusGas_def getBalance_def getFeeData_def
    by (intro filter_trace_bind filter_trace_all filter_trace_invoke P)
       (simp_all add: split_def filter_trace_return rest)
qed

lemma filter_trace_claimTokens:
  assumes P: "\<And>ev. P ev \<Longrightarrow> isWait ev \<or> isPoll ev"
  shows "filter P (trace (snd (claimTokens signer w))) = filter P (trace w)"
proof -
  have "\<not> P GetFeeData" "\<not> P (ContractClaim ov)" "\<not> P (TxWait h)" for ov h
    using P [of GetFeeData] P [of "ContractClaim ov"] P [of "TxWait h"] by auto
  then show ?thesis
    unfolding claimTokens_def sendWithDynamicGas_def getFeeData_def contract_claim_def
    by (intro filter_trace_bind filter_trace_invoke filter_trace_txWait)
       (simp_all add: filter_trace_throw filter_trace_return)
qed

lemma filter_trace_sweepIfFunded:
  assumes P: "\<And>ev. sweepEvent ev \<Longrightarrow> \<not> P ev" and poll: "\<And>ev. isPoll ev \<Longrightarrow> \<not> P ev"
  shows "filter P (trace (snd (sweepIfFunded wallet w))) = filter P (trace w)"
proof -
  have pass: "filter P (trace (snd (bind_io (transferAllToken wallet RECEIVER TOKEN_CONTRACT) (\<lambda>_.
         bind_io (transferAllNativeMinusGas wallet RECEIVER) (\<lambda>_. return_io True)) w'))) =
       filter P (trace w')" for w'
    by (intro filter_trace_bind filter_trace_transferAllToken
        filter_trace_transferAllNativeMinusGas filter_trace_return P)
  show ?thesis
    unfolding sweepIfFunded_def getTokenBalance_def erc20_balanceOf_def
    by (intro filter_trace_bind filter_trace_invoke poll)
       (simp_all add: filter_trace_return pass)
qed

lemma sweepEvent_not_isWait: "sweepEvent ev \<Longrightarrow> \<not> isWait ev"
  by (cases ev) simp_all

lemma sweepEvent_not_isClaimCall: "sweepEvent ev \<Longrightarrow> \<not> isClaimCall ev"
  by (cases ev) simp_all

lemma sweepEvent_not_isPoll: "sweepEvent ev \<Longrightarrow> \<not> isPoll ev"
  by (cases ev rule: isPoll.cases) simp_all

lemma isPoll_not_isWait: "isPoll ev \<Longrightarrow> \<not> isWait ev"
  by (cases ev) simp_all

lemma isPoll_not_isClaimCall: "isPoll ev \<Longrightarrow> \<not> isClaimCall ev"
  by (cases ev) simp_all

text \<open>
  The second loop never calls the claim contract, however long it runs.
\<close>

lemma monitorIteration_claims:
  "filter isClaimCall (trace (snd (monitorIteration wallet w))) = filter isClaimCall (trace w)"
proof -
  obtain r w' where run: "sweepIfFunded wallet w = (r, w')"
    by (cases "sweepIfFunded wallet w")
  then have "filter isClaimCall (trace w') = filter isClaimCall (trace w)"
    using filter_trace_sweepIfFunded [of isClaimCall wallet w,
        OF sweepEvent_not_isClaimCall isPoll_not_isClaimCall]
    by simp
  with run show ?thesis
    by (simp add: monitorIteration_def split: sum.split bool.split)
qed

lemma monitorLoop_claims:
  "filter isClaimCall (trace (snd (monitorLoop n wallet w))) = filter isClaimCall (trace w)"
proof (induction n arbitrary: w)
  case 0
  show ?case by simp
next
  case (Suc n)
  obtain b w' where it: "monitorIteration wallet w = (b, w')"
    by (cases "monitorIteration wallet w")
  then have "filter isClaimCall (trace w') = filter isClaimCall (trace w)"
    using monitorIteration_claims [of wallet w] by simp
  with it Suc [of w'] show ?case by (cases b) simp_all
qed

section \<open>The claim loop\<close>

lemma claimIteration_failed:
  assumes "isl (fst (claimTokens wallet w))"
  shows "fst (claimIteration wallet w) = False"
    and "filter isWait (trace (snd (claimIteration wallet w))) = filter isWait (trace w) @ [Wait 5000]"
proof -
  obtain e w1 where run: "claimTokens wallet w = (Inl e, w1)"
    using assms by (cases "claimTokens wallet w") (auto simp: isl_def)
  have w1: "filter isWait (trace w1) = filter isWait (trace w)"
    using filter_trace_claimTokens [of isWait wallet w] run by simp
  obtain r w3 where sweep: "sweepIfFunded wallet (snd (wait 5000 w1)) = (r, w3)"
    by (cases "sweepIfFunded wallet (snd (wait 5000 w1))")
  have "filter isWait (trace w3) = filter isWait (trace (snd (wait 5000 w1)))"
    using filter_trace_sweepIfFunded [of isWait wallet "snd (wait 5000 w1)",
        OF sweepEvent_not_isWait isPoll_not_isWait] sweep
    by simp
  then have w3: "filter isWait (trace w3) = filter isWait (trace w) @ [Wait 5000]"
    using w1 by (simp add: wait_def)
  show "fst (claimIteration wallet w) = False"
    using run sweep by (simp add: claimIteration_def wait_def)
  show "filter isWait (trace (snd (claimIteration wallet w))) = filter isWait (trace w) @ [Wait 5000]"
    using run sweep w3 by (simp add: claimIteration_def wait_def)
qed

lemma claimIteration_succeeded:
  assumes "\<not> isl (fst (claimTokens wallet w))"
  shows "claimIteration wallet w = (True, snd (claimTokens wallet w))"
  using assms by (cases "claimTokens wallet w") (auto simp: claimIteration_def split: sum.split)

text \<open>
  Claim C7. When \<open>claimTokens\<close> fails on its first and second invocation and succeeds on
  the third, the first loop leaves at its third pass (and not before), in the world right
  after the successful claim; exactly two timers of 5000 ms were added; \<open>main\<close> goes on with
  the second loop from that world; and the second loop adds no claim call, however many
  passes it makes.
\<close>

theorem claim_retry_two_waits:
  assumes first: "isl (fst (claimTokens wallet w0))"
    and second: "isl (fst (claimTokens wallet (snd (claimIteration wallet w0))))"
    and third: "\<not> isl (fst (claimTokens wallet
                  (snd (claimIteration wallet (snd (claimIteration wallet w0))))))"
  shows "let w3 = snd (claimTokens wallet
                    (snd (claimIteration wallet (snd (claimIteration wallet w0)))))
         in claimLoop (3 + k) wallet w0 = (True, w3) \<and>
            \<not> fst (claimLoop 0 wallet w0) \<and> \<not> fst (claimLoop 1 wallet w0) \<and>
            \<not> fst (claimLoop 2 wallet w0) \<and>
            filter isWait (trace w3) = filter isWait (trace w0) @ [Wait 5000, Wait 5000] \<and>
            main (3 + k) wallet w0 = monitorLoop (3 + k) wallet w3 \<and>
            (\<forall>n. filter isClaimCall (trace (snd (monitorLoop n wallet w3))) =
                   filter isClaimCall (trace w3))"
proof -
  define w1 where "w1 = snd (claimIteration wallet w0)"
  define w2 where "w2 = snd (claimIteration wallet w1)"
  define w3 where "w3 = snd (claimTokens wallet w2)"
  have i1: "claimIteration wallet w0 = (False, w1)"
    using claimIteration_failed(1) [OF first] by (simp add: w1_def prod_eq_iff)
  have i2: "claimIteration wallet w1 = (False, w2)"
    using claimIteration_failed(1) [of wallet w1] second by (simp add: w1_def w2_def prod_eq_iff)
  have i3: "claimIteration wallet w2 = (True, w3)"
    using claimIteration_succeeded [of wallet w2] third by (simp add: w1_def w2_def w3_def)
  have loop: "claimLoop (3 + k) wallet w0 = (True, w3)"
    by (simp add: numeral_3_eq_3 i1 i2 i3)
  have short: "\<not> fst (claimLoop 0 wallet w0)" "\<not> fst (claimLoop 1 wallet w0)"
      "\<not> fst (claimLoop 2 wallet w0)"
    by (simp_all add: numeral_2_eq_2 i1 i2)
  have "filter isWait (trace w1) = filter isWait (trace w0) @ [Wait 5000]"
    using claimIteration_failed(2) [OF first] by (simp add: w1_def)
  moreover have "filter isWait (trace w2) = filter isWait (trace w1) @ [Wait 5000]"
    using claimIteration_failed(2) [of wallet w1] second by (simp add: w1_def w2_def)
  moreover have "filter isWait (trace w3) = filter isWait (trace w2)"
    using filter_trace_claimTokens [of isWait wallet w2] by (simp add: w3_def)
  ultimately have waits: "filter isWait (trace w3) = filter isWait (trace w0) @ [Wait 5000, Wait 5000]"
    by simp
  have "main (3 + k) wallet w0 = monitorLoop (3 + k) wallet w3"
    using loop by (simp add: main_def)
  with loop short waits show ?thesis
    unfolding Let_def w3_def [symmetric] w2_def [symmetric] w1_def [symmetric]
    by (simp add: monitorLoop_claims)
qed

text \<open>
  The theorem on a node that rejects the claim twice; the run makes three claim calls in
  all.
\<close>

theorem claim_retry_two_waits_witness:
  "fst (claimLoop 3 holder claimStubWorld) \<and> \<not> fst (claimLoop 2 holder claimStubWorld) \<and>
   filter isWait (trace (snd (claimLoop 3 holder claimStubWorld))) = [Wait 5000, Wait 5000] \<and>
   length (filter isClaimCall (trace (snd (main 3 holder claimStubWorld)))) = 3"
  using claim_retry_two_waits [of holder claimStubWorld 0]
  by (simp add: model_defs example_defs sdiv_nonneg numeral_3_eq_3 numeral_2_eq_2 main_def)

section \<open>The monitor loop\<close>

lemma getTokenBalance_run:
  "getTokenBalance a t w =
     (balanceOf_rsp w (calls w CBalanceOf),
      w\<lparr>calls := (calls w)(CBalanceOf := Suc (calls w CBalanceOf)),
        trace := trace w @ [BalanceOf Provider t a]\<rparr>)"
  by (simp add: getTokenBalance_def erc20_balanceOf_def invoke_def)

lemma monitorIteration_empty:
  "balanceOf_rsp w (calls w CBalanceOf) = Inr 0 \<Longrightarrow>
   monitorIteration wallet w = (False, snd (getTokenBalance wallet TOKEN_CONTRACT w))"
  by (simp add: monitorIteration_def sweepIfFunded_def getTokenBalance_run bind_io_def return_io_def)

lemma monitorIteration_funded:
  assumes "balanceOf_rsp w (calls w CBalanceOf) = Inr b" "0 < b"
    and "\<not> isl (fst (transferAllToken wallet RECEIVER TOKEN_CONTRACT
                  (snd (getTokenBalance wallet TOKEN_CONTRACT w))))"
    and "\<not> isl (fst (transferAllNativeMinusGas wallet RECEIVER
             (snd (transferAllToken wallet RECEIVER TOKEN_CONTRACT
                  (snd (getTokenBalance wallet TOKEN_CONTRACT w))))))"
  shows "monitorIteration wallet w =
           (True, snd (transferAllNativeMinusGas wallet RECEIVER
             (snd (transferAllToken wallet RECEIVER TOKEN_CONTRACT
                  (snd (getTokenBalance wallet TOKEN_CONTRACT w))))))"
proof -
  let ?w1 = "snd (getTokenBalance wallet TOKEN_CONTRACT w)"
  obtain a1 w2 where t0: "transferAllToken wallet RECEIVER TOKEN_CONTRACT ?w1 = (a1, w2)"
    by (cases "transferAllToken wallet RECEIVER TOKEN_CONTRACT ?w1")
  with assms(3) obtain r1 where t: "transferAllToken wallet RECEIVER TOKEN_CONTRACT ?w1 = (Inr r1, w2)"
    by (cases a1) auto
  obtain a2 w3 where n0: "transferAllNativeMinusGas wallet RECEIVER w2 = (a2, w3)"
    by (cases "transferAllNativeMinusGas wallet RECEIVER w2")
  with assms(4) t obtain r2 where n: "transferAllNativeMinusGas wallet RECEIVER w2 = (Inr r2, w3)"
    by (cases a2) auto
  show ?thesis
    using assms(1,2) t n
    by (simp add: monitorIteration_def sweepIfFunded_def getTokenBalance_run bind_io_def return_io_def)
qed

text \<open>
  Claim C8. The balance reads 0 three times and then 42, and the sweep pass that the fourth
  poll starts runs to its end (each transfer settles with status 1 or finds nothing to
  move; a pass that raises is the case of the \<open>catch\<close>, where polling goes on). Then the
  second loop leaves at its fourth pass and not before, after exactly four polls and
  exactly one sweep pass: the token transfer, then the native transfer, whatever the native
  transfer returned.
\<close>

theorem monitor_four_polls:
  assumes empty: "balanceOf_rsp w (calls w CBalanceOf) = Inr 0"
      "balanceOf_rsp w (calls w CBalanceOf + 1) = Inr 0"
      "balanceOf_rsp w (calls w CBalanceOf + 2) = Inr 0"
    and funded: "balanceOf_rsp w (calls w CBalanceOf + 3) = Inr 42"
  shows "let poll = (\<lambda>w. snd (getTokenBalance wallet TOKEN_CONTRACT w));
             w4 = poll (poll (poll (poll w)));
             w5 = snd (transferAllToken wallet RECEIVER TOKEN_CONTRACT w4);
             w6 = snd (transferAllNativeMinusGas wallet RECEIVER w5)
         in \<not> isl (fst (transferAllToken wallet RECEIVER TOKEN_CONTRACT w4)) \<and>
            \<not> isl (fst (transferAllNativeMinusGas wallet RECEIVER w5)) \<longrightarrow>
              monitorLoop (4 + k) wallet w = (True, w6) \<and>
              \<not> fst (monitorLoop 0 wallet w) \<and> \<not> fst (monitorLoop 1 wallet w) \<and>
              \<not> fst (monitorLoop 2 wallet w) \<and> \<not> fst (monitorLoop 3 wallet w) \<and>
              filter isPoll (trace w6) =
                filter isPoll (trace w) @ replicate 4 (BalanceOf Provider TOKEN_CONTRACT wallet)"
proof -
  define poll where "poll = (\<lambda>w. snd (getTokenBalance wallet TOKEN_CONTRACT w))"
  define w4 where "w4 = poll (poll (poll (poll w)))"
  define w5 where "w5 = snd (transferAllToken wallet RECEIVER TOKEN_CONTRACT w4)"
  define w6 where "w6 = snd (transferAllNativeMinusGas wallet RECEIVER w5)"
  have poll_calls: "calls (poll v) CBalanceOf = Suc (calls v CBalanceOf)"
    and poll_rsp: "balanceOf_rsp (poll v) = balanceOf_rsp v"
    and poll_trace: "trace (poll v) = trace v @ [BalanceOf Provider TOKEN_CONTRACT wallet]" for v
    by (simp_all add: poll_def getTokenBalance_run)
  have i1: "monitorIteration wallet w = (False, poll w)"
    using empty(1) by (simp add: monitorIteration_empty poll_def)
  have i2: "monitorIteration wallet (poll w) = (False, poll (poll w))"
    using empty(2) monitorIteration_empty [of "poll w" wallet]
    by (simp add: poll_calls poll_rsp) (simp add: poll_def)
  have i3: "monitorIteration wallet (poll (poll w)) = (False, poll (poll (poll w)))"
    using empty(3) monitorIteration_empty [of "poll (poll w)" wallet]
    by (simp add: poll_calls poll_rsp) (simp add: poll_def)
  have short: "\<not> fst (monitorLoop 0 wallet w)" "\<not> fst (monitorLoop 1 wallet w)"
      "\<not> fst (monitorLoop 2 wallet w)" "\<not> fst (monitorLoop 3 wallet w)"
    using i1 i2 i3 by (simp_all add: numeral_2_eq_2 numeral_3_eq_3)
  have polls: "filter isPoll (trace w6) =
      filter isPoll (trace w) @ replicate 4 (BalanceOf Provider TOKEN_CONTRACT wallet)"
  proof -
    have "filter isPoll (trace w6) = filter isPoll (trace w5)"
      unfolding w6_def
      by (rule filter_trace_transferAllNativeMinusGas) (rule sweepEvent_not_isPoll)
    also have "\<dots> = filter isPoll (trace w4)"
      unfolding w5_def
      by (rule filter_trace_transferAllToken) (rule sweepEvent_not_isPoll)
    also have "\<dots> = filter isPoll (trace w) @ replicate 4 (BalanceOf Provider TOKEN_CONTRACT wallet)"
      by (simp add: w4_def poll_trace numeral_eq_Suc)
    finally show ?thesis .
  qed
  have last: "monitorLoop (4 + k) wallet w = (True, w6)"
    if ok: "\<not> isl (fst (transferAllToken wallet RECEIVER TOKEN_CONTRACT w4))"
      "\<not> isl (fst (transferAllNativeMinusGas wallet RECEIVER w5))"
  proof -
    have "balanceOf_rsp (poll (poll (poll w))) (calls (poll (poll (poll w))) CBalanceOf) = Inr 42"
      using funded by (simp add: poll_calls poll_rsp numeral_3_eq_3)
    then have "monitorIteration wallet (poll (poll (poll w))) = (True, w6)"
      using monitorIteration_funded [of "poll (poll (poll w))" 42 wallet] ok
      by (simp add: w4_def w5_def w6_def poll_def)
    then show ?thesis
      using i1 i2 i3 by (simp add: numeral_eq_Suc)
  qed
  show ?thesis
    unfolding Let_def poll_def [symmetric] w4_def [symmetric] w5_def [symmetric] w6_def [symmetric]
    using last short polls by simp
qed

text \<open>
  The theorem on a node whose balance reads 0, 0, 0 and then 42.
\<close>

theorem monitor_four_polls_witness:
  "fst (monitorLoop 4 holder balanceStubWorld) \<and> \<not> fst (monitorLoop 3 holder balanceStubWorld) \<and>
   filter isPoll (trace (snd (monitorLoop 4 holder balanceStubWorld))) =
     replicate 4 (BalanceOf Provider TOKEN_CONTRACT holder) \<and>
   filter isSubmission (trace (snd (monitorLoop 4 holder balanceStubWorld))) =
     [Erc20Transfer TOKEN_CONTRACT RECEIVER 42 (dynamicGasOverrides exampleFees),
      SendTransaction (nativeTxReq RECEIVER (1000000000000000000 - 21000 * 2400000000) exampleFees)]"
  using monitor_four_polls [of balanceStubWorld holder 0]
  by (simp add: model_defs example_defs sdiv_nonneg numeral_3_eq_3 numeral_eq_Suc)

end
